theory Spec2Isabelle
  imports Main "HOL-Library.Word"
begin

section \<open>The container setup command of the DevPod agent\<close>

text \<open>
  A shallow embedding of the setup command of package \<^verbatim>\<open>container\<close> (the Go file
  that follows the generated client in \<^verbatim>\<open>licensetoken.go\<close> under \<^verbatim>\<open>src/\<close>; line numbers
  below are those of that file). Go strings are byte strings (\<^typ>\<open>string\<close>), an \<^verbatim>\<open>error\<close> that
  is \<^verbatim>\<open>nil\<close> is \<^term>\<open>None\<close>, and everything the program does to the world (the
  tunnel, the file system, processes, the logger) is recorded as an event of a history
  that every function takes and returns.
\<close>

subsection \<open>Strings: \<^verbatim>\<open>strings.TrimSpace\<close>, \<^verbatim>\<open>strings.Split\<close>, \<^verbatim>\<open>strconv.Itoa\<close>\<close>

text \<open>
  The white-space runes of \<^verbatim>\<open>unicode.IsSpace\<close>, each as its UTF-8 encoding:
  U+0009 to U+000D, U+0020, U+0085, U+00A0, U+1680, U+2000 to U+200A, U+2028, U+2029,
  U+202F, U+205F and U+3000.
\<close>

definition spaceRunes :: "string list" where
  "spaceRunes =
     [[CHR 0x09], [CHR 0x0A], [CHR 0x0B], [CHR 0x0C], [CHR 0x0D], [CHR 0x20],
      [CHR 0xC2, CHR 0x85], [CHR 0xC2, CHR 0xA0],
      [CHR 0xE1, CHR 0x9A, CHR 0x80],
      [CHR 0xE2, CHR 0x80, CHR 0x80], [CHR 0xE2, CHR 0x80, CHR 0x81],
      [CHR 0xE2, CHR 0x80, CHR 0x82], [CHR 0xE2, CHR 0x80, CHR 0x83],
      [CHR 0xE2, CHR 0x80, CHR 0x84], [CHR 0xE2, CHR 0x80, CHR 0x85],
      [CHR 0xE2, CHR 0x80, CHR 0x86], [CHR 0xE2, CHR 0x80, CHR 0x87],
      [CHR 0xE2, CHR 0x80, CHR 0x88], [CHR 0xE2, CHR 0x80, CHR 0x89],
      [CHR 0xE2, CHR 0x80, CHR 0x8A],
      [CHR 0xE2, CHR 0x80, CHR 0xA8], [CHR 0xE2, CHR 0x80, CHR 0xA9],
      [CHR 0xE2, CHR 0x80, CHR 0xAF],
      [CHR 0xE2, CHR 0x81, CHR 0x9F],
      [CHR 0xE3, CHR 0x80, CHR 0x80]]"

text \<open>The rune of \<open>runes\<close> that \<open>s\<close> starts with, if there is one.\<close>

definition runePrefix :: "string list \<Rightarrow> string \<Rightarrow> string option" where
  "runePrefix runes s = find (\<lambda>r. r \<noteq> [] \<and> take (length r) s = r) runes"

function trimLeftRunes :: "string list \<Rightarrow> string \<Rightarrow> string" where
  "trimLeftRunes runes s =
     (case runePrefix runes s of
        None \<Rightarrow> s
      | Some r \<Rightarrow> trimLeftRunes runes (drop (length r) s))"
  by pat_completeness auto
termination
proof (relation "measure (\<lambda>(runes, s). length s)")
  show "wf (measure (\<lambda>(runes, s). length s))" by simp
next
  fix runes s r
  assume "runePrefix runes s = Some r"
  then have r: "r \<noteq> []" and "take (length r) s = r"
    by (auto simp: runePrefix_def find_Some_iff)
  then have "s \<noteq> []" by auto
  with r show "((runes, drop (length r) s), (runes, s)) \<in> measure (\<lambda>(runes, s). length s)"
    by simp
qed

declare trimLeftRunes.simps [simp del]

text \<open>
  \<^verbatim>\<open>strings.TrimSpace\<close>: all leading and all trailing white-space runes are cut off.
  The trailing ones are the leading ones of the reversed string, read against the
  reversed encodings.
\<close>

definition TrimSpace :: "string \<Rightarrow> string" where
  "TrimSpace s =
     rev (trimLeftRunes (map rev spaceRunes) (rev (trimLeftRunes spaceRunes s)))"

text \<open>
  \<^verbatim>\<open>strings.Split(s, ",")\<close>: the pieces of \<open>s\<close> between its commas, one more than
  there are commas.
\<close>

fun Split :: "string \<Rightarrow> string list" where
  "Split [] = [[]]"
| "Split (c # cs) =
     (if c = CHR '','' then [] # Split cs
      else (case Split cs of [] \<Rightarrow> [[c]] | x # xs \<Rightarrow> (c # x) # xs))"

text \<open>\<^verbatim>\<open>strconv.Itoa\<close>: the decimal digits of an integer.\<close>

function natDigits :: "nat \<Rightarrow> string" where
  "natDigits n =
     (if n < 10 then [char_of (48 + n)]
      else natDigits (n div 10) @ [char_of (48 + n mod 10)])"
  by pat_completeness auto
termination
  by (relation "measure (\<lambda>n. n)") auto

declare natDigits.simps [simp del]

definition Itoa :: "int \<Rightarrow> string" where
  "Itoa i = (if i < 0 then CHR ''-'' # natDigits (nat (- i)) else natDigits (nat i))"

subsection \<open>\<^verbatim>\<open>parseIgnorePaths\<close> (lines 443 to 455)\<close>

text \<open>
  A \<^verbatim>\<open>nil\<close> slice and an empty slice are both the empty list: the caller only appends
  the result to its arguments.
\<close>

definition parseIgnorePaths :: "string \<Rightarrow> string list" where
  "parseIgnorePaths ignorePaths =
     (if TrimSpace ignorePaths = [] then []
      else foldl (\<lambda>retPaths s. retPaths @ [''--ignore-path'', TrimSpace s]) []
             (Split ignorePaths))"


subsection \<open>Errors, log lines, commands and events\<close>

text \<open>
  \<open>Err m\<close> is an error with message \<open>m\<close> (one made by \<^verbatim>\<open>errors.New\<close> or handed back
  by a function outside this file); \<open>Wrap m e\<close> is \<^verbatim>\<open>fmt.Errorf("m: %w", e)\<close> and
  \<^verbatim>\<open>errors.Wrap(e, "m")\<close>: the error \<open>e\<close> with the context \<open>m\<close> in front of its message.
\<close>

datatype error = Err string | Wrap string error

fun errorString :: "error \<Rightarrow> string" where
  "errorString (Err m) = m"
| "errorString (Wrap m e) = m @ '': '' @ errorString e"

datatype Level = DebugLevel | InfoLevel | ErrorLevel

text \<open>\<^verbatim>\<open>log.Writer(level, false)\<close>: a writer whose lines the logger emits at \<open>level\<close>.\<close>

datatype writer = LogWriter Level

text \<open>
  An \<^verbatim>\<open>exec.Cmd\<close>: the program, its arguments after the program's name, the two
  output streams (\<^term>\<open>None\<close> is Go's \<^verbatim>\<open>nil\<close>: the stream is discarded) and the
  environment (\<^term>\<open>None\<close>: the parent's).
\<close>

record Cmd =
  Path :: string
  Args :: "string list"
  Stdout :: "writer option"
  Stderr :: "writer option"
  Env :: "string list option"

datatype Flavor =
  FlavorStable | FlavorInsiders | FlavorCursor | FlavorPositron | FlavorCodium | FlavorWindsurf

text \<open>
  The names of \<^verbatim>\<open>config2\<close> that \<^verbatim>\<open>installIDE\<close> switches on. They are constants of
  another package; Go refuses a switch with two equal constant cases, so they are pairwise
  different and each is a constructor here. \<open>IDEOther\<close> is every other name.
\<close>

datatype IDE =
  IDENone | IDEVSCode | IDEVSCodeInsiders | IDECursor | IDEPositron | IDECodium
| IDEWindsurf | IDEOpenVSCode | IDEGoland | IDERustRover | IDEPyCharm | IDEPhpStorm
| IDEIntellij | IDECLion | IDERider | IDERubyMine | IDEWebStorm | IDEDataSpell
| IDEFleet | IDEJupyterNotebook | IDERStudio | IDEOther string

type_synonym Options = "(string \<times> string) list"

text \<open>
  The IDE servers the constructors of the \<^verbatim>\<open>ide\<close> packages build, with the arguments
  they are given (the logger apart). \<open>JetBrainsServer k\<close> is the server of the
  \<^verbatim>\<open>jetbrains\<close> constructor for the kind \<open>k\<close>; the last argument of \<open>FleetServer\<close> is the
  folder its \<^verbatim>\<open>Install\<close> is called with.
\<close>

datatype server =
  VSCodeServer "string list" string string Options Flavor
| OpenVSCodeServer "string list" string string string string Options
| JetBrainsServer IDE string Options
| FleetServer string Options string
| JupyterNotebookServer string string Options
| RStudioServer string string Options

text \<open>
  What the program does to the world, in the order it does it. \<open>Log\<close> is a call of
  the logger; the other events are calls of the tunnel, the operating system and the
  packages outside this file that change something. Calls that only read (\<^verbatim>\<open>os.Stat\<close>,
  \<^verbatim>\<open>os.ReadDir\<close>, \<^verbatim>\<open>os.Getenv\<close>) are not events.
\<close>

datatype event =
  Log Level string
| EvNewTunnelClient
| EvPing
| EvSendResult string
| EvStreamMount string
| EvHttpDo string string
| EvBodyClose
| EvExtract string
| EvRenameDirectory string string
| EvRemoveAll string
| EvSetenv string string
| EvUnsetenv string
| EvStartCredentialsServer
| EvConfigureCredentialsDockerless string int
| EvCancel
| EvRun Cmd
| EvWriterClose Level
| EvMergeAndApply "string list"
| EvGit "string list"
| EvClone string
| EvSetupContainer
| EvInstall server
| EvStart server
| EvSingle string
| EvStartDetached string Cmd

type_synonym hist = "event list"

subsection \<open>The data of a run\<close>

text \<open>
  The structs of the packages \<^verbatim>\<open>config\<close> and \<^verbatim>\<open>provider2\<close> are declared outside this
  file; the records have the fields this file reads or writes. A map that may be
  \<^verbatim>\<open>nil\<close> is an option.
\<close>

record Mount =
  Source :: string
  Target :: string

record VSCodeCustomizations =
  Settings :: "(string \<times> string) list"
  Extensions :: "string list"

record MergedDevContainerConfig =
  RemoteEnv :: "(string \<rightharpoonup> string) option"
  Mounts :: "Mount list"
  Customizations :: string

record SubstitutionContext =
  ContainerWorkspaceFolder :: string

record Result =
  MergedConfig :: MergedDevContainerConfig
  SubstitutionContext :: SubstitutionContext

record PlatformOptions =
  Enabled :: bool
  PlatformHost :: string
  InstanceNamespace :: string
  InstanceName :: string
  AccessKey :: string

record CLIOptions =
  Reset :: bool
  Recreate :: bool
  DisableDaemon :: bool
  Platform :: PlatformOptions

record ProviderDockerlessOptions =
  DisableDockerCredentials :: string
  IgnorePaths :: string
  RegistryCache :: string

record WorkspaceIDEConfig =
  Name :: IDE
  Options :: Options

record ContainerWorkspaceInfo =
  CLIOptions :: CLIOptions
  Dockerless :: ProviderDockerlessOptions
  IDE :: WorkspaceIDEConfig
  PullFromInsideContainer :: string
  ContainerTimeout :: string

record SetupContainerCmd =
  Debug :: bool
  ChownWorkspace :: bool
  StreamMounts :: bool
  InjectGitCredentials :: bool
  ContainerWorkspaceInfo :: string
  SetupInfo :: string

record Response =
  StatusCode :: int
  Status :: string
  Body :: string


subsection \<open>The world outside this file\<close>

text \<open>
  What the calls out of this file return. A call whose answer depends on the state of
  the world takes the history so far (the answer is the one the world gives after these
  events); a function of another package that only computes takes its arguments. The
  constants of other packages and of the Go runtime are fields too. Nothing is assumed
  about any of them unless a statement says so: the theorems below hold for every \<open>sys\<close>.
\<close>

record sys =
  NewTunnelClient :: "hist \<Rightarrow> error option"
  Ping :: "hist \<Rightarrow> error option"
  StreamMount :: "hist \<Rightarrow> string \<Rightarrow> error option"
  SendResult :: "hist \<Rightarrow> string \<Rightarrow> error option"
  DecodeContainerWorkspaceInfo :: "string \<Rightarrow> error + ContainerWorkspaceInfo"
  Decompress :: "string \<Rightarrow> error + string"
  UnmarshalResult :: "string \<Rightarrow> error + Result"
  MarshalResult :: "Result \<Rightarrow> error + string"
  MarshalSettings :: "(string \<times> string) list \<Rightarrow> error + string"
  UnmarshalConfigFile :: "string \<Rightarrow> error + string list"
  GetMounts :: "Result \<Rightarrow> Mount list"
  MountString :: "Mount \<Rightarrow> string"
  SprintMounts :: "Mount list \<Rightarrow> string"
  GetRemoteUser :: "Result \<Rightarrow> string"
  GetVSCodeConfiguration :: "MergedDevContainerConfig \<Rightarrow> VSCodeCustomizations"
  SubstituteContainerEnv ::
    "string list \<Rightarrow> MergedDevContainerConfig \<Rightarrow> error + MergedDevContainerConfig"
  DevPodDockerlessBuildInfoFolder :: string
  DevPodContextFeatureFolder :: string
  StrBool :: "string \<Rightarrow> error + bool"
  Getenv :: "hist \<Rightarrow> string \<Rightarrow> string"
  Environ :: "hist \<Rightarrow> string list"
  Stat :: "hist \<Rightarrow> string \<Rightarrow> error option"
  ReadDir :: "hist \<Rightarrow> string \<Rightarrow> error + string list"
  ReadFile :: "hist \<Rightarrow> string \<Rightarrow> error + string"
  Executable :: "hist \<Rightarrow> error + string"
  PathJoin :: "string \<Rightarrow> string \<Rightarrow> string"
  GOOS :: string
  GOARCH :: string
  Now :: "hist \<Rightarrow> int"
  CommandExists :: "hist \<Rightarrow> string \<Rightarrow> bool"
  RunCmd :: "hist \<Rightarrow> Cmd \<Rightarrow> error option"
  RemoveProtocol :: "string \<Rightarrow> string"
  QueryEscape :: "string \<Rightarrow> string"
  NewRequest :: "string \<Rightarrow> error option"
  HttpDo :: "hist \<Rightarrow> string \<Rightarrow> string \<Rightarrow> error + Response"
  Extract :: "hist \<Rightarrow> string \<Rightarrow> error option"
  RenameDirectory :: "hist \<Rightarrow> string \<Rightarrow> string \<Rightarrow> error option"
  StartCredentialsServer :: "hist \<Rightarrow> error + int"
  ConfigureCredentialsDockerless :: "hist \<Rightarrow> string \<Rightarrow> int \<Rightarrow> error + string"
  GitRun :: "hist \<Rightarrow> string list \<Rightarrow> error option"
  CloneRepositoryForWorkspace :: "hist \<Rightarrow> string \<Rightarrow> error option"
  SetupContainer :: "hist \<Rightarrow> Result \<Rightarrow> error option"
  Install :: "hist \<Rightarrow> server \<Rightarrow> error option"
  Start :: "hist \<Rightarrow> server \<Rightarrow> error option"
  DisplayName :: "Flavor \<Rightarrow> string"
  FlavorString :: "Flavor \<Rightarrow> string"
  DefaultVSCodePort :: int
  LockHeld :: "hist \<Rightarrow> string \<Rightarrow> bool"
  StartDetached :: "hist \<Rightarrow> string \<Rightarrow> Cmd \<Rightarrow> error option"
  FormatMB :: "64 word \<Rightarrow> string"
  FormatErrorW :: "error \<Rightarrow> string"


text \<open>
  Of the fields that are not calls by their Go names: \<open>MountString\<close> is the method
  \<^verbatim>\<open>String\<close> of a mount and \<open>SprintMounts\<close> what \<^verbatim>\<open>fmt.Sprint\<close> prints for a slice of
  mounts; \<open>StrBool\<close> is the method \<^verbatim>\<open>Bool\<close> of the \<^verbatim>\<open>PullFromInsideContainer\<close> value;
  \<open>PathJoin\<close> is \<^verbatim>\<open>filepath.Join\<close>; \<open>RunCmd\<close> is \<^verbatim>\<open>Run\<close> of an \<^verbatim>\<open>exec.Cmd\<close> and \<open>GitRun\<close>
  that of a \<^verbatim>\<open>git.CommandContext\<close> with the given arguments; \<open>HttpDo\<close> is the GET request
  with an Authorization header (in the response, \<open>Body\<close> is what \<^verbatim>\<open>io.ReadAll\<close> reads
  from it); \<open>Extract\<close> is \<^verbatim>\<open>extract.Extract\<close> of the stream just opened into a folder,
  with the progress lines its reads log; \<open>Install\<close> and \<open>Start\<close> are the methods of an
  IDE server; \<open>FlavorString\<close> is the string a flavor constant stands for; \<open>Environ\<close> is
  \<^verbatim>\<open>os.Environ\<close>, which the two callees that take it read through
  \<^verbatim>\<open>config.ListToObject\<close>; \<open>UnmarshalConfigFile\<close> gives \<^verbatim>\<open>Config.Env\<close> of the parsed image
  configuration; \<open>FormatMB\<close> prints a byte count as megabytes with two decimals and
  \<open>FormatErrorW\<close> is what \<^verbatim>\<open>Sprintf\<close> prints for an error under the verb \<^verbatim>\<open>%w\<close>.
  \<open>LockHeld\<close> and \<open>StartDetached\<close> are the two primitives of the Single-Instance Guard
  below.
\<close>

subsection \<open>\<^verbatim>\<open>progressReader\<close> (lines 720 to 737)\<close>

text \<open>
  The wrapped \<^verbatim>\<open>io.Reader\<close> is a value of any type \<open>'r\<close> together with its method
  \<^verbatim>\<open>Read\<close>: from the reader, the buffer \<open>b\<close> and the history it gives what it leaves in
  the buffer, the count \<open>n\<close>, the error, the reader afterwards and the history afterwards.
  \<open>bytesRead\<close> is an \<^verbatim>\<open>int64\<close>; times are nanoseconds, and \<^verbatim>\<open>time.Since\<close> saturates at
  the ends of \<^verbatim>\<open>int64\<close>.
\<close>

record 'r progressReader =
  Reader :: 'r
  lastMessage :: int
  bytesRead :: "64 word"

type_synonym 'r Read =
  "'r \<Rightarrow> string \<Rightarrow> hist \<Rightarrow> (string \<times> int \<times> error option) \<times> 'r \<times> hist"

definition Since :: "int \<Rightarrow> int \<Rightarrow> int" where
  "Since now t = max (- (2 ^ 63)) (min (2 ^ 63 - 1) (now - t))"

definition progressReader_Read ::
  "sys \<Rightarrow> 'r Read \<Rightarrow> 'r progressReader \<Rightarrow> string \<Rightarrow> hist
     \<Rightarrow> (string \<times> int \<times> error option) \<times> 'r progressReader \<times> hist" where
  "progressReader_Read sys rd p b h =
     (case rd (Reader p) b h of
        ((b', n, err), r', h1) \<Rightarrow>
          let p1 = p\<lparr>Reader := r', bytesRead := bytesRead p + word_of_int n\<rparr> in
          if Since (Now sys h1) (lastMessage p1) > 4 * 1000000000 then
            let h2 = h1 @ [Log InfoLevel
                             (''Downloaded '' @ FormatMB sys (bytesRead p1) @ '' MB'')]
            in ((b', n, err), p1\<lparr>lastMessage := Now sys h2\<rparr>, h2)
          else ((b', n, err), p1, h1))"

text \<open>
  Any sequence of reads: the buffers of the calls, one after the other, each on the
  reader the call before left. The result is the list of what the calls returned.
\<close>

fun progressReader_Reads ::
  "sys \<Rightarrow> 'r Read \<Rightarrow> 'r progressReader \<Rightarrow> string list \<Rightarrow> hist
     \<Rightarrow> (string \<times> int \<times> error option) list \<times> 'r progressReader \<times> hist" where
  "progressReader_Reads sys rd p [] h = ([], p, h)"
| "progressReader_Reads sys rd p (b # bs) h =
     (case progressReader_Read sys rd p b h of
        (res, p1, h1) \<Rightarrow>
          (case progressReader_Reads sys rd p1 bs h1 of
             (ress, p2, h2) \<Rightarrow> (res # ress, p2, h2)))"

subsection \<open>\<^verbatim>\<open>streamMount\<close> (lines 649 to 718)\<close>


subsection \<open>\<^verbatim>\<open>configureDockerCredentials\<close> (lines 457 to 474)\<close>

definition configureDockerCredentials :: "sys \<Rightarrow> hist \<Rightarrow> (error + string) \<times> hist" where
  "configureDockerCredentials sys h =
     (case StartCredentialsServer sys h of
        Inl err \<Rightarrow> (Inl err, h @ [EvStartCredentialsServer])
      | Inr serverPort \<Rightarrow>
          let h1 = h @ [EvStartCredentialsServer];
              h2 = h1 @ [EvConfigureCredentialsDockerless ''/.dockerless/.docker'' serverPort]
          in (case ConfigureCredentialsDockerless sys h1 ''/.dockerless/.docker'' serverPort of
                Inl err \<Rightarrow> (Inl err, h2)
              | Inr dockerCredentials \<Rightarrow> (Inr dockerCredentials, h2)))"

subsection \<open>\<^verbatim>\<open>dockerlessBuild\<close> (lines 312 to 441)\<close>

definition DockerlessImageConfigOutput :: string where
  "DockerlessImageConfigOutput = ''/.dockerless/image.json''"

text \<open>\<^verbatim>\<open>strings.Join\<close>.\<close>

fun Join :: "string list \<Rightarrow> string \<Rightarrow> string" where
  "Join [] sep = []"
| "Join [x] sep = x"
| "Join (x # y # ys) sep = x @ sep @ Join (y # ys) sep"

text \<open>Lines 336 to 351: the build info folder is there, or is moved back into place.\<close>

definition dockerlessBuild_buildInfo ::
  "sys \<Rightarrow> string \<Rightarrow> string \<Rightarrow> hist \<Rightarrow> error option \<times> hist" where
  "dockerlessBuild_buildInfo sys fallbackDir buildInfoDir h =
     (case Stat sys h buildInfoDir of
        None \<Rightarrow> (None, h)
      | Some _ \<Rightarrow>
          let h1 = h @ [EvRenameDirectory fallbackDir buildInfoDir] in
          (case RenameDirectory sys h fallbackDir buildInfoDir of
             Some err \<Rightarrow> (Some (Wrap ''rename dir'' err), h1)
           | None \<Rightarrow>
               (case Stat sys h1 buildInfoDir of
                  Some err \<Rightarrow>
                    (Some (Wrap (''couldn't find build dir '' @ buildInfoDir) err), h1)
                | None \<Rightarrow> (None, h1))))"

text \<open>Lines 376 to 394: the arguments of the builder.\<close>

definition dockerlessBuild_args ::
  "sys \<Rightarrow> Result \<Rightarrow> ProviderDockerlessOptions \<Rightarrow> string \<Rightarrow> hist \<Rightarrow> string list \<times> hist" where
  "dockerlessBuild_args sys setupInfo dockerlessOptions binaryPath h =
     (let args = [''build'', ''--ignore-path'', binaryPath];
          args = args @ parseIgnorePaths (IgnorePaths dockerlessOptions);
          args = args @ [''--build-arg'', ''TARGETOS='' @ GOOS sys];
          args = args @ [''--build-arg'', ''TARGETARCH='' @ GOARCH sys];
          (args, h1) =
            (if RegistryCache dockerlessOptions \<noteq> [] then
               (args @ [''--registry-cache'', RegistryCache dockerlessOptions],
                h @ [Log DebugLevel
                       (''Appending registry cache to dockerless build arguments ''
                        @ RegistryCache dockerlessOptions)])
             else (args, h));
          args = args @ [''--ignore-path'',
                         ContainerWorkspaceFolder (SubstitutionContext setupInfo)];
          args = foldl
                   (\<lambda>args m.
                      case ReadDir sys h1 (Target m) of
                        Inr files \<Rightarrow> if files \<noteq> [] then args @ [''--ignore-path'', Target m]
                                     else args
                      | Inl err \<Rightarrow> args)
                   args (Mounts (MergedConfig setupInfo))
      in (args, h1))"

text \<open>
  Lines 396 to 440: the builder runs and its image configuration is applied. The two
  writers are closed when the function returns, the last one made first.
\<close>

definition dockerlessBuild_run ::
  "sys \<Rightarrow> bool \<Rightarrow> string \<Rightarrow> string \<Rightarrow> string list \<Rightarrow> hist \<Rightarrow> error option \<times> hist" where
  "dockerlessBuild_run sys debug fallbackDir buildInfoDir args h =
     (let h1 = h @ [Log InfoLevel
                      (''Start dockerless building /.dockerless/dockerless ''
                       @ Join args '' '')];
          cmd = \<lparr>Path = ''/.dockerless/dockerless'', Args = args,
                 Stdout = (if debug then Some (LogWriter DebugLevel) else None),
                 Stderr = Some (LogWriter InfoLevel),
                 Env = Some (Environ sys h1)\<rparr>;
          closes = (if debug then [EvWriterClose DebugLevel] else [])
                   @ [EvWriterClose InfoLevel];
          h2 = h1 @ [EvRun cmd]
      in case RunCmd sys h1 cmd of
           Some err \<Rightarrow> (Some err, h2 @ closes)
         | None \<Rightarrow>
            (case ReadFile sys h2 DockerlessImageConfigOutput of
               Inl err \<Rightarrow> (Some err, h2 @ closes)
             | Inr rawConfig \<Rightarrow>
                (case UnmarshalConfigFile sys rawConfig of
                   Inl err \<Rightarrow> (Some (Wrap ''parse container config'' err), h2 @ closes)
                 | Inr env \<Rightarrow>
                    let h3 = h2 @ [EvMergeAndApply env, EvRemoveAll fallbackDir];
                        h4 = h3 @ [EvRenameDirectory buildInfoDir fallbackDir]
                    in (case RenameDirectory sys h3 buildInfoDir fallbackDir of
                          Some err \<Rightarrow>
                            (None,
                             h4 @ [Log DebugLevel
                                     (''Error renaming dir '' @ buildInfoDir @ '': ''
                                      @ errorString err)] @ closes)
                        | None \<Rightarrow> (None, h4 @ closes)))))"

text \<open>
  Lines 353 to 440: the path of the agent, the docker credentials, the build. What was
  deferred runs when the function returns: the credentials are removed if they were
  configured, and the context is cancelled.
\<close>

definition dockerlessBuild_build ::
  "sys \<Rightarrow> Result \<Rightarrow> ProviderDockerlessOptions \<Rightarrow> bool \<Rightarrow> string \<Rightarrow> string \<Rightarrow> hist
     \<Rightarrow> error option \<times> hist" where
  "dockerlessBuild_build sys setupInfo dockerlessOptions debug fallbackDir buildInfoDir h =
     (case Executable sys h of
        Inl err \<Rightarrow> (Some err, h)
      | Inr binaryPath \<Rightarrow>
          let build = (\<lambda>h. case dockerlessBuild_args sys setupInfo dockerlessOptions
                                   binaryPath h of
                             (args, h') \<Rightarrow>
                               dockerlessBuild_run sys debug fallbackDir buildInfoDir args h')
          in if DisableDockerCredentials dockerlessOptions \<noteq> ''true'' then
               (case configureDockerCredentials sys h of
                  (Inl err, h1) \<Rightarrow>
                    (case build (h1 @ [Log ErrorLevel
                                         (''Error configuring docker credentials: ''
                                          @ errorString err)]) of
                       (r, h2) \<Rightarrow> (r, h2 @ [EvCancel]))
                | (Inr dockerCredentialsDir, h1) \<Rightarrow>
                    (case build h1 of
                       (r, h2) \<Rightarrow>
                         (r, h2 @ [EvUnsetenv ''DOCKER_CONFIG'',
                                   EvRemoveAll dockerCredentialsDir, EvCancel])))
             else build h)"

definition dockerlessBuild ::
  "sys \<Rightarrow> Result \<Rightarrow> ProviderDockerlessOptions \<Rightarrow> bool \<Rightarrow> hist \<Rightarrow> error option \<times> hist" where
  "dockerlessBuild sys setupInfo dockerlessOptions debug h =
     (if Getenv sys h ''DOCKERLESS'' \<noteq> ''true'' then (None, h)
      else if Stat sys h DockerlessImageConfigOutput = None then
        (None, h @ [Log DebugLevel
                      ''Skip dockerless build, because container was built already''])
      else
        let buildContext = Getenv sys h ''DOCKERLESS_CONTEXT'' in
        if buildContext = [] then
          (None, h @ [Log DebugLevel ''Build context is missing for dockerless build''])
        else
          let fallbackDir = PathJoin sys (DevPodDockerlessBuildInfoFolder sys)
                              (DevPodContextFeatureFolder sys);
              buildInfoDir = PathJoin sys buildContext (DevPodContextFeatureFolder sys)
          in (case dockerlessBuild_buildInfo sys fallbackDir buildInfoDir h of
                (Some err, h1) \<Rightarrow> (Some err, h1)
              | (None, h1) \<Rightarrow>
                  dockerlessBuild_build sys setupInfo dockerlessOptions debug
                    fallbackDir buildInfoDir h1))"


subsection \<open>\<^verbatim>\<open>fillContainerEnv\<close> (lines 292 to 310)\<close>



subsection \<open>The Single-Instance Guard\<close>

text \<open>
  Modelled from the spec: \<^verbatim>\<open>single.Single\<close> is called here and defined in a package
  that is not under \<^verbatim>\<open>src/\<close>. Section 4.7 of the specification: given a task name and
  a factory that produces a background command, it checks whether a live instance
  already holds that name's lock; if so, the factory is never invoked. Otherwise it
  spawns the produced command detached from the parent. An error of the factory or of
  the spawn is the error of the call. \<open>EvSingle\<close> marks the call itself.
\<close>

definition Single ::
  "sys \<Rightarrow> string \<Rightarrow> (hist \<Rightarrow> (error + Cmd) \<times> hist) \<Rightarrow> hist \<Rightarrow> error option \<times> hist" where
  "Single sys name createCommand h =
     (let h1 = h @ [EvSingle name] in
      if LockHeld sys h1 name then (None, h1)
      else (case createCommand h1 of
              (Inl err, h2) \<Rightarrow> (Some err, h2)
            | (Inr c, h2) \<Rightarrow> (StartDetached sys h2 name c, h2 @ [EvStartDetached name c])))"

text \<open>\<^verbatim>\<open>exec.Command\<close>: no stream and no environment is set.\<close>

definition Command :: "string \<Rightarrow> string list \<Rightarrow> Cmd" where
  "Command name arg = \<lparr>Path = name, Args = arg, Stdout = None, Stderr = None, Env = None\<rparr>"

subsection \<open>\<^verbatim>\<open>setupVSCode\<close> (lines 528 to 571) and \<^verbatim>\<open>setupOpenVSCode\<close> (lines 573 to 613)\<close>

text \<open>Lines 532 to 539: the settings as JSON, or the empty string if there are none.\<close>

definition marshalSettings :: "sys \<Rightarrow> VSCodeCustomizations \<Rightarrow> error + string" where
  "marshalSettings sys vsCodeConfiguration =
     (if Settings vsCodeConfiguration \<noteq> [] then
        MarshalSettings sys (Settings vsCodeConfiguration)
      else Inr [])"

text \<open>Lines 556 to 570: the function handed to \<^verbatim>\<open>single.Single\<close>.\<close>

definition setupVSCode_createCommand ::
  "sys \<Rightarrow> SetupContainerCmd \<Rightarrow> string list \<Rightarrow> Flavor \<Rightarrow> hist \<Rightarrow> (error + Cmd) \<times> hist" where
  "setupVSCode_createCommand sys cmd extensions flavor h =
     (let h1 = h @ [Log InfoLevel
                      (''Install extensions '' @ [CHR 0x27] @ Join extensions '',''
                       @ [CHR 0x27] @ '' in the background'')]
      in case Executable sys h1 of
           Inl err \<Rightarrow> (Inl err, h1)
         | Inr binaryPath \<Rightarrow>
             (Inr (Command binaryPath
                     [''agent'', ''container'', ''vscode-async'',
                      ''--setup-info'', SetupInfo cmd,
                      ''--release-channel'', FlavorString sys flavor]), h1))"

definition setupVSCode ::
  "sys \<Rightarrow> SetupContainerCmd \<Rightarrow> Result \<Rightarrow> Options \<Rightarrow> Flavor \<Rightarrow> hist \<Rightarrow> error option \<times> hist" where
  "setupVSCode sys cmd setupInfo ideOptions flavor h =
     (let h1 = h @ [Log DebugLevel (''Setup '' @ DisplayName sys flavor @ ''...'')];
          vsCodeConfiguration = GetVSCodeConfiguration sys (MergedConfig setupInfo)
      in case marshalSettings sys vsCodeConfiguration of
           Inl err \<Rightarrow> (Some err, h1)
         | Inr settings \<Rightarrow>
             let user = GetRemoteUser sys setupInfo;
                 srv = VSCodeServer (Extensions vsCodeConfiguration) settings user
                         ideOptions flavor;
                 h2 = h1 @ [EvInstall srv]
             in (case Install sys h1 srv of
                   Some err \<Rightarrow> (Some err, h2)
                 | None \<Rightarrow>
                     if Settings vsCodeConfiguration = []
                        \<and> Extensions vsCodeConfiguration = [] then (None, h2)
                     else if Extensions vsCodeConfiguration = [] then (None, h2)
                     else Single sys (FlavorString sys flavor @ ''-async.pid'')
                            (setupVSCode_createCommand sys cmd
                               (Extensions vsCodeConfiguration) flavor) h2))"

definition setupOpenVSCode_createCommand ::
  "sys \<Rightarrow> SetupContainerCmd \<Rightarrow> string list \<Rightarrow> hist \<Rightarrow> (error + Cmd) \<times> hist" where
  "setupOpenVSCode_createCommand sys cmd extensions h =
     (let h1 = h @ [Log InfoLevel
                      (''Install extensions '' @ [CHR 0x27] @ Join extensions '',''
                       @ [CHR 0x27] @ '' in the background'')]
      in case Executable sys h1 of
           Inl err \<Rightarrow> (Inl err, h1)
         | Inr binaryPath \<Rightarrow>
             (Inr (Command binaryPath
                     [''agent'', ''container'', ''openvscode-async'',
                      ''--setup-info'', SetupInfo cmd]), h1))"

definition setupOpenVSCode ::
  "sys \<Rightarrow> SetupContainerCmd \<Rightarrow> Result \<Rightarrow> Options \<Rightarrow> hist \<Rightarrow> error option \<times> hist" where
  "setupOpenVSCode sys cmd setupInfo ideOptions h =
     (let h1 = h @ [Log DebugLevel ''Setup openvscode...''];
          vsCodeConfiguration = GetVSCodeConfiguration sys (MergedConfig setupInfo)
      in case marshalSettings sys vsCodeConfiguration of
           Inl err \<Rightarrow> (Some err, h1)
         | Inr settings \<Rightarrow>
             let user = GetRemoteUser sys setupInfo;
                 openVSCode = OpenVSCodeServer (Extensions vsCodeConfiguration) settings user
                                ''0.0.0.0'' (Itoa (DefaultVSCodePort sys)) ideOptions;
                 h2 = h1 @ [EvInstall openVSCode];
                 start = (\<lambda>h. (Start sys h openVSCode, h @ [EvStart openVSCode]))
             in (case Install sys h1 openVSCode of
                   Some err \<Rightarrow> (Some err, h2)
                 | None \<Rightarrow>
                     if Extensions vsCodeConfiguration \<noteq> [] then
                       (case Single sys ''openvscode-async.pid''
                               (setupOpenVSCode_createCommand sys cmd
                                  (Extensions vsCodeConfiguration)) h2 of
                          (Some err, h3) \<Rightarrow> (Some (Wrap ''install extensions'' err), h3)
                        | (None, h3) \<Rightarrow> start h3)
                     else start h2))"

subsection \<open>\<^verbatim>\<open>installIDE\<close> (lines 476 to 526)\<close>

text \<open>\<^verbatim>\<open>Install\<close> of a server just built.\<close>

definition install :: "sys \<Rightarrow> server \<Rightarrow> hist \<Rightarrow> error option \<times> hist" where
  "install sys srv h = (Install sys h srv, h @ [EvInstall srv])"

definition installIDE ::
  "sys \<Rightarrow> SetupContainerCmd \<Rightarrow> Result \<Rightarrow> WorkspaceIDEConfig \<Rightarrow> hist \<Rightarrow> error option \<times> hist" where
  "installIDE sys cmd setupInfo ide h =
     (let user = GetRemoteUser sys setupInfo;
          folder = ContainerWorkspaceFolder (SubstitutionContext setupInfo)
      in case Name ide of
           IDENone \<Rightarrow> (None, h)
         | IDEVSCode \<Rightarrow> setupVSCode sys cmd setupInfo (Options ide) FlavorStable h
         | IDEVSCodeInsiders \<Rightarrow> setupVSCode sys cmd setupInfo (Options ide) FlavorInsiders h
         | IDECursor \<Rightarrow> setupVSCode sys cmd setupInfo (Options ide) FlavorCursor h
         | IDEPositron \<Rightarrow> setupVSCode sys cmd setupInfo (Options ide) FlavorPositron h
         | IDECodium \<Rightarrow> setupVSCode sys cmd setupInfo (Options ide) FlavorCodium h
         | IDEWindsurf \<Rightarrow> setupVSCode sys cmd setupInfo (Options ide) FlavorWindsurf h
         | IDEOpenVSCode \<Rightarrow> setupOpenVSCode sys cmd setupInfo (Options ide) h
         | IDEGoland \<Rightarrow> install sys (JetBrainsServer IDEGoland user (Options ide)) h
         | IDERustRover \<Rightarrow> install sys (JetBrainsServer IDERustRover user (Options ide)) h
         | IDEPyCharm \<Rightarrow> install sys (JetBrainsServer IDEPyCharm user (Options ide)) h
         | IDEPhpStorm \<Rightarrow> install sys (JetBrainsServer IDEPhpStorm user (Options ide)) h
         | IDEIntellij \<Rightarrow> install sys (JetBrainsServer IDEIntellij user (Options ide)) h
         | IDECLion \<Rightarrow> install sys (JetBrainsServer IDECLion user (Options ide)) h
         | IDERider \<Rightarrow> install sys (JetBrainsServer IDERider user (Options ide)) h
         | IDERubyMine \<Rightarrow> install sys (JetBrainsServer IDERubyMine user (Options ide)) h
         | IDEWebStorm \<Rightarrow> install sys (JetBrainsServer IDEWebStorm user (Options ide)) h
         | IDEDataSpell \<Rightarrow> install sys (JetBrainsServer IDEDataSpell user (Options ide)) h
         | IDEFleet \<Rightarrow> install sys (FleetServer user (Options ide) folder) h
         | IDEJupyterNotebook \<Rightarrow>
             install sys (JupyterNotebookServer folder user (Options ide)) h
         | IDERStudio \<Rightarrow>
             (case install sys (RStudioServer folder user (Options ide)) h of
                (Some err, h1) \<Rightarrow>
                  (None, h1 @ [Log ErrorLevel
                                 (''could not install rstudio with error: ''
                                  @ FormatErrorW sys err)])
              | (None, h1) \<Rightarrow> (None, h1))
         | IDEOther n \<Rightarrow> (None, h))"

subsection \<open>\<^verbatim>\<open>configureSystemGitCredentials\<close> (lines 615 to 647)\<close>




subsection \<open>\<^verbatim>\<open>Run\<close> (lines 149 to 290)\<close>

text \<open>
  The body of \<^verbatim>\<open>Run\<close> is a sequence of steps. It is written here from its end: each
  definition is the rest of the body from one step on, so \<open>Run_clone\<close> is lines 230 to
  289 and \<open>Run\<close> itself is the whole body.
\<close>

text \<open>Lines 279 to 289: the setup result is sent back.\<close>

definition Run_sendResult :: "sys \<Rightarrow> Result \<Rightarrow> hist \<Rightarrow> error option \<times> hist" where
  "Run_sendResult sys setupInfo h =
     (case MarshalResult sys setupInfo of
        Inl err \<Rightarrow> (Some (Wrap ''marshal setup info'' err), h)
      | Inr out \<Rightarrow>
          (case SendResult sys h out of
             Some err \<Rightarrow> (Some (Wrap ''send result'' err), h @ [EvSendResult out])
           | None \<Rightarrow> (None, h @ [EvSendResult out])))"

text \<open>Lines 265 to 273: the function handed to \<^verbatim>\<open>single.Single\<close>.\<close>

definition Run_daemonCommand ::
  "sys \<Rightarrow> ContainerWorkspaceInfo \<Rightarrow> hist \<Rightarrow> (error + Cmd) \<times> hist" where
  "Run_daemonCommand sys workspaceInfo h =
     (let h1 = h @ [Log DebugLevel
                      (''Start DevPod Container Daemon with Inactivity Timeout ''
                       @ ContainerTimeout workspaceInfo)]
      in case Executable sys h1 of
           Inl err \<Rightarrow> (Inl err, h1)
         | Inr binaryPath \<Rightarrow>
             (Inr (Command binaryPath
                     [''agent'', ''container'', ''daemon'', ''--timeout'',
                      ContainerTimeout workspaceInfo]), h1))"

text \<open>Lines 263 to 289.\<close>

definition Run_daemon ::
  "sys \<Rightarrow> ContainerWorkspaceInfo \<Rightarrow> Result \<Rightarrow> hist \<Rightarrow> error option \<times> hist" where
  "Run_daemon sys workspaceInfo setupInfo h =
     (if \<not> Enabled (Platform (CLIOptions workspaceInfo))
         \<and> \<not> DisableDaemon (CLIOptions workspaceInfo)
         \<and> ContainerTimeout workspaceInfo \<noteq> [] then
        (case Single sys ''devpod.daemon.pid'' (Run_daemonCommand sys workspaceInfo) h of
           (Some err, h1) \<Rightarrow> (Some err, h1)
         | (None, h1) \<Rightarrow> Run_sendResult sys setupInfo h1)
      else Run_sendResult sys setupInfo h)"

text \<open>Lines 257 to 289.\<close>

definition Run_installIDE ::
  "sys \<Rightarrow> SetupContainerCmd \<Rightarrow> ContainerWorkspaceInfo \<Rightarrow> Result \<Rightarrow> hist
     \<Rightarrow> error option \<times> hist" where
  "Run_installIDE sys cmd workspaceInfo setupInfo h =
     (case installIDE sys cmd setupInfo (IDE workspaceInfo) h of
        (Some err, h1) \<Rightarrow> (Some err, h1)
      | (None, h1) \<Rightarrow> Run_daemon sys workspaceInfo setupInfo h1)"

text \<open>
  Lines 251 to 289. \<^verbatim>\<open>setup.SetupContainer\<close> is taken to leave the setup result it is
  given a pointer to as it is.
\<close>

definition Run_setupContainer ::
  "sys \<Rightarrow> SetupContainerCmd \<Rightarrow> ContainerWorkspaceInfo \<Rightarrow> Result \<Rightarrow> hist
     \<Rightarrow> error option \<times> hist" where
  "Run_setupContainer sys cmd workspaceInfo setupInfo h =
     (case SetupContainer sys h setupInfo of
        Some err \<Rightarrow> (Some err, h @ [EvSetupContainer])
      | None \<Rightarrow> Run_installIDE sys cmd workspaceInfo setupInfo (h @ [EvSetupContainer]))"

text \<open>Lines 230 to 289.\<close>

definition Run_clone ::
  "sys \<Rightarrow> SetupContainerCmd \<Rightarrow> ContainerWorkspaceInfo \<Rightarrow> Result \<Rightarrow> hist
     \<Rightarrow> error option \<times> hist" where
  "Run_clone sys cmd workspaceInfo setupInfo h =
     (case StrBool sys (PullFromInsideContainer workspaceInfo) of
        Inl err \<Rightarrow> Run_setupContainer sys cmd workspaceInfo setupInfo h
      | Inr b \<Rightarrow>
          if b then
            (let folder = ContainerWorkspaceFolder (SubstitutionContext setupInfo) in
             if Stat sys h (PathJoin sys folder ''.git'') = None
                \<and> \<not> Recreate (CLIOptions workspaceInfo) then
               Run_setupContainer sys cmd workspaceInfo setupInfo
                 (h @ [Log DebugLevel
                         (''Workspace repository already checked out '' @ folder
                          @ '', skipping clone'')])
             else
               (case CloneRepositoryForWorkspace sys h folder of
                  Some err \<Rightarrow> (Some err, h @ [EvClone folder])
                | None \<Rightarrow>
                    Run_setupContainer sys cmd workspaceInfo setupInfo
                      (h @ [EvClone folder])))
          else Run_setupContainer sys cmd workspaceInfo setupInfo h)"









section \<open>Notions of the statements\<close>



text \<open>The byte counts a list of reads returned.\<close>

definition counts :: "(string \<times> int \<times> error option) list \<Rightarrow> int list" where
  "counts ress = map (\<lambda>res. fst (snd res)) ress"

text \<open>
  What a history holds: the commands that were run, the names the Single-Instance Guard
  was called with, and the background processes that were started.
\<close>

primrec runs :: "hist \<Rightarrow> Cmd list" where
  "runs [] = []"
| "runs (e # es) = (case e of EvRun c \<Rightarrow> c # runs es | _ \<Rightarrow> runs es)"

primrec singleCalls :: "hist \<Rightarrow> string list" where
  "singleCalls [] = []"
| "singleCalls (e # es) = (case e of EvSingle name \<Rightarrow> name # singleCalls es | _ \<Rightarrow> singleCalls es)"

primrec started :: "hist \<Rightarrow> (string \<times> Cmd) list" where
  "started [] = []"
| "started (e # es) =
     (case e of EvStartDetached name c \<Rightarrow> (name, c) # started es | _ \<Rightarrow> started es)"

text \<open>The kinds of IDE by family, and the flavor of a kind of the VSCode family.\<close>

definition jetBrainsFamily :: "IDE set" where
  "jetBrainsFamily =
     {IDEGoland, IDERustRover, IDEPyCharm, IDEPhpStorm, IDEIntellij, IDECLion, IDERider,
      IDERubyMine, IDEWebStorm, IDEDataSpell}"

definition vscodeFlavor :: "IDE \<Rightarrow> Flavor option" where
  "vscodeFlavor k =
     (if k = IDEVSCode then Some FlavorStable
      else if k = IDEVSCodeInsiders then Some FlavorInsiders
      else if k = IDECursor then Some FlavorCursor
      else if k = IDEPositron then Some FlavorPositron
      else if k = IDECodium then Some FlavorCodium
      else if k = IDEWindsurf then Some FlavorWindsurf
      else None)"


section \<open>An example run\<close>

text \<open>
  A workspace with one mount and a world in which every call succeeds: no build mode
  is set, no file is there, directories are empty. The examples below change one
  answer at a time.
\<close>

definition exMount :: Mount where
  "exMount = \<lparr>Source = ''/home/user/project'', Target = ''/workspaces/project''\<rparr>"

definition exSetupInfo :: Result where
  "exSetupInfo =
     \<lparr>MergedConfig = \<lparr>RemoteEnv = None, Mounts = [exMount], Customizations = []\<rparr>,
      SubstitutionContext = \<lparr>ContainerWorkspaceFolder = ''/workspaces/project''\<rparr>\<rparr>"

definition exOptions :: CLIOptions where
  "exOptions =
     \<lparr>Reset = False, Recreate = False, DisableDaemon = True,
      Platform = \<lparr>Enabled = False, PlatformHost = [], InstanceNamespace = [],
                  InstanceName = [], AccessKey = []\<rparr>\<rparr>"

definition exDockerless :: ProviderDockerlessOptions where
  "exDockerless = \<lparr>DisableDockerCredentials = ''true'', IgnorePaths = [], RegistryCache = []\<rparr>"

definition exWorkspaceInfo :: ContainerWorkspaceInfo where
  "exWorkspaceInfo =
     \<lparr>CLIOptions = exOptions, Dockerless = exDockerless,
      IDE = \<lparr>Name = IDENone, Options = []\<rparr>,
      PullFromInsideContainer = ''true'', ContainerTimeout = []\<rparr>"

definition exCmd :: SetupContainerCmd where
  "exCmd =
     \<lparr>Debug = False, ChownWorkspace = False, StreamMounts = True,
      InjectGitCredentials = True, ContainerWorkspaceInfo = ''workspace'',
      SetupInfo = ''setup''\<rparr>"

definition exSys :: sys where
  "exSys =
     \<lparr>NewTunnelClient = (\<lambda>h. None),
      Ping = (\<lambda>h. None),
      StreamMount = (\<lambda>h m. None),
      SendResult = (\<lambda>h out. None),
      DecodeContainerWorkspaceInfo = (\<lambda>s. Inr exWorkspaceInfo),
      Decompress = (\<lambda>s. Inr s),
      UnmarshalResult = (\<lambda>s. Inr exSetupInfo),
      MarshalResult = (\<lambda>r. Inr ''{}''),
      MarshalSettings = (\<lambda>s. Inr ''{}''),
      UnmarshalConfigFile = (\<lambda>s. Inr []),
      GetMounts = (\<lambda>r. Mounts (MergedConfig r)),
      MountString = (\<lambda>m. Source m @ '':'' @ Target m),
      SprintMounts = (\<lambda>ms. []),
      GetRemoteUser = (\<lambda>r. ''root''),
      GetVSCodeConfiguration = (\<lambda>c. \<lparr>Settings = [], Extensions = []\<rparr>),
      SubstituteContainerEnv = (\<lambda>env c. Inr c),
      DevPodDockerlessBuildInfoFolder = ''/workspaces/.dockerless'',
      DevPodContextFeatureFolder = ''.devpod-internal'',
      StrBool = (\<lambda>s. Inr (s = ''true'')),
      Getenv = (\<lambda>h k. []),
      Environ = (\<lambda>h. []),
      Stat = (\<lambda>h p. Some (Err ''no such file or directory'')),
      ReadDir = (\<lambda>h p. Inr []),
      ReadFile = (\<lambda>h p. Inr ''{}''),
      Executable = (\<lambda>h. Inr ''/usr/local/bin/devpod''),
      PathJoin = (\<lambda>a b. a @ ''/'' @ b),
      GOOS = ''linux'',
      GOARCH = ''amd64'',
      Now = (\<lambda>h. 0),
      CommandExists = (\<lambda>h c. True),
      RunCmd = (\<lambda>h c. None),
      RemoveProtocol = (\<lambda>s. s),
      QueryEscape = (\<lambda>s. s),
      NewRequest = (\<lambda>u. None),
      HttpDo = (\<lambda>h u a. Inr \<lparr>StatusCode = 200, Status = ''200 OK'', Body = []\<rparr>),
      Extract = (\<lambda>h t. None),
      RenameDirectory = (\<lambda>h a b. None),
      StartCredentialsServer = (\<lambda>h. Inr 12049),
      ConfigureCredentialsDockerless = (\<lambda>h d p. Inr d),
      GitRun = (\<lambda>h a. None),
      CloneRepositoryForWorkspace = (\<lambda>h f. None),
      SetupContainer = (\<lambda>h r. None),
      Install = (\<lambda>h s. None),
      Start = (\<lambda>h s. None),
      DisplayName = (\<lambda>f. ''VSCode''),
      FlavorString = (\<lambda>f. ''stable''),
      DefaultVSCodePort = 10800,
      LockHeld = (\<lambda>h n. False),
      StartDetached = (\<lambda>h n c. None),
      FormatMB = (\<lambda>w. ''0.00''),
      FormatErrorW = errorString\<rparr>"

text \<open>An error of the world outside.\<close>

definition exErr :: error where
  "exErr = Err ''connection refused''"

text \<open>
  A reader that leaves the buffer as it is and reports three bytes at every call, and
  the progress reader \<^verbatim>\<open>streamMount\<close> makes around a reader (line 690): nothing read
  yet, and the zero time as the time of the last message.
\<close>

definition exRead :: "nat Read" where
  "exRead r b h = ((b, 3, None), r + 3, h)"

definition exReader :: "nat progressReader" where
  "exReader = \<lparr>Reader = 0, lastMessage = - 62135596800000000000, bytesRead = 0\<rparr>"


definition exSysFail :: sys where
  "exSysFail =
     exSys\<lparr>NewTunnelClient := \<lambda>h. Some exErr,
            Ping := \<lambda>h. Some exErr,
            DecodeContainerWorkspaceInfo := \<lambda>s. Inl exErr,
            StreamMount := \<lambda>h m. Some exErr,
            Getenv := \<lambda>h k. ''true'',
            RenameDirectory := \<lambda>h a b. Some exErr,
            SubstituteContainerEnv := \<lambda>env c. Inl exErr,
            CloneRepositoryForWorkspace := \<lambda>h f. Some exErr,
            SetupContainer := \<lambda>h r. Some exErr,
            Install := \<lambda>h s. Some exErr,
            StartDetached := \<lambda>h n c. Some exErr,
            MarshalResult := \<lambda>r. Inl exErr\<rparr>"


text \<open>A configuration with one extension and no settings, and one the other way round.\<close>

definition exSysExtensions :: sys where
  "exSysExtensions =
     exSys\<lparr>GetVSCodeConfiguration := \<lambda>c. \<lparr>Settings = [], Extensions = [''golang.go'']\<rparr>\<rparr>"

definition exSysSettings :: sys where
  "exSysSettings =
     exSys\<lparr>GetVSCodeConfiguration :=
              \<lambda>c. \<lparr>Settings = [(''editor.fontSize'', ''12'')], Extensions = []\<rparr>\<rparr>"

text \<open>
  A world in which the build mode is set and the build context is \<^verbatim>\<open>/build\<close>; every
  file is there but the image configuration.
\<close>

definition exSysBuild :: sys where
  "exSysBuild =
     exSys\<lparr>Getenv := \<lambda>h k. if k = ''DOCKERLESS'' then ''true''
                           else if k = ''DOCKERLESS_CONTEXT'' then ''/build'' else [],
            Stat := \<lambda>h p. if p = ''/.dockerless/image.json''
                           then Some (Err ''no such file or directory'') else None\<rparr>"

section \<open>Properties\<close>

subsection \<open>Ignore paths\<close>

lemma runePrefix_Nil: "runePrefix runes [] = None"
  by (simp add: runePrefix_def find_None_iff)

lemma trimLeftRunes_Nil: "trimLeftRunes runes [] = []"
  by (simp add: trimLeftRunes.simps [of runes "[]"] runePrefix_Nil)








subsection \<open>The progress reader\<close>

lemma progressReader_Read_fst:
  "fst (progressReader_Read sys rd p b h) = fst (rd (Reader p) b h)"
  by (simp add: progressReader_Read_def Let_def split: prod.splits)

lemma progressReader_Read_bytesRead:
  "bytesRead (fst (snd (progressReader_Read sys rd p b h)))
     = bytesRead p + word_of_int (fst (snd (fst (rd (Reader p) b h))))"
  by (simp add: progressReader_Read_def Let_def split: prod.splits)

lemma progressReader_Reads_bytesRead:
  "progressReader_Reads sys rd p bs h = (ress, p', h')
     \<Longrightarrow> bytesRead p' = bytesRead p + word_of_int (sum_list (counts ress))"
proof (induction bs arbitrary: p h ress p' h')
  case Nil
  then show ?case by (simp add: counts_def)
next
  case (Cons b bs)
  obtain res p1 h1 where r: "progressReader_Read sys rd p b h = (res, p1, h1)"
    by (cases "progressReader_Read sys rd p b h") auto
  obtain ress1 p2 h2 where rs: "progressReader_Reads sys rd p1 bs h1 = (ress1, p2, h2)"
    by (cases "progressReader_Reads sys rd p1 bs h1") auto
  from Cons.prems r rs have eq: "ress = res # ress1" "p' = p2" by auto
  from Cons.IH [OF rs]
  have "bytesRead p2 = bytesRead p1 + word_of_int (sum_list (counts ress1))" .
  moreover from progressReader_Read_bytesRead [of sys rd p b h]
    progressReader_Read_fst [of sys rd p b h] r
  have "bytesRead p1 = bytesRead p + word_of_int (fst (snd res))" by simp
  ultimately show ?case using eq by (simp add: counts_def)
qed

lemma sint_word_of_int_64:
  fixes w :: "64 word"
  assumes "w = word_of_int k" and "0 \<le> k" and "k < 2 ^ 63"
  shows "sint w = k"
proof -
  have "sint w = signed_take_bit 63 k"
    using assms(1) by (simp add: sint_sbintrunc')
  also have "\<dots> = k"
    using assms(2,3) by (simp add: signed_take_bit_int_eq_self)
  finally show ?thesis .
qed

text \<open>
  C10: a call of \<^verbatim>\<open>progressReader.Read\<close> returns the buffer, the byte count and the
  error of the wrapped reader's \<^verbatim>\<open>Read\<close> as they are, and adds the count to
  \<^verbatim>\<open>bytesRead\<close>. After any sequence of reads \<^verbatim>\<open>bytesRead\<close> is what it was plus the sum
  of the counts returned, in the arithmetic of \<^verbatim>\<open>int64\<close>; for a reader that starts at
  zero it is that sum itself as long as the sum is below \<open>2 ^ 63\<close>.
\<close>

theorem progressReader_Read_spec:
  "fst (progressReader_Read sys rd p b h) = fst (rd (Reader p) b h) \<and>
   bytesRead (fst (snd (progressReader_Read sys rd p b h)))
     = bytesRead p + word_of_int (fst (snd (fst (rd (Reader p) b h)))) \<and>
   (progressReader_Reads sys rd p bs h = (ress, p', h') \<longrightarrow>
      bytesRead p' = bytesRead p + word_of_int (sum_list (counts ress)) \<and>
      (bytesRead p = 0 \<and> 0 \<le> sum_list (counts ress) \<and> sum_list (counts ress) < 2 ^ 63 \<longrightarrow>
         sint (bytesRead p') = sum_list (counts ress)))"
proof (intro conjI impI)
  show "fst (progressReader_Read sys rd p b h) = fst (rd (Reader p) b h)"
    by (rule progressReader_Read_fst)
  show "bytesRead (fst (snd (progressReader_Read sys rd p b h)))
     = bytesRead p + word_of_int (fst (snd (fst (rd (Reader p) b h))))"
    by (rule progressReader_Read_bytesRead)
next
  assume a: "progressReader_Reads sys rd p bs h = (ress, p', h')"
  show "bytesRead p' = bytesRead p + word_of_int (sum_list (counts ress))"
    by (rule progressReader_Reads_bytesRead [OF a])
next
  assume a: "progressReader_Reads sys rd p bs h = (ress, p', h')"
    and b: "bytesRead p = 0 \<and> 0 \<le> sum_list (counts ress) \<and> sum_list (counts ress) < 2 ^ 63"
  from progressReader_Reads_bytesRead [OF a] b
  have "bytesRead p' = word_of_int (sum_list (counts ress))"
    by simp
  with b show "sint (bytesRead p') = sum_list (counts ress)"
    by (simp add: sint_word_of_int_64)
qed

lemma exReader_Reads:
  "progressReader_Reads exSys exRead exReader [''abcd'', ''efgh''] [] =
     ([(''abcd'', 3, None), (''efgh'', 3, None)],
      \<lparr>Reader = 6, lastMessage = 0, bytesRead = 6\<rparr>,
      [Log InfoLevel ''Downloaded 0.00 MB''])"
  by (simp add: progressReader_Read_def exRead_def exReader_def exSys_def Since_def)

theorem progressReader_Read_spec_witness:
  "progressReader_Reads exSys exRead exReader [''abcd'', ''efgh''] [] =
     ([(''abcd'', 3, None), (''efgh'', 3, None)],
      \<lparr>Reader = 6, lastMessage = 0, bytesRead = 6\<rparr>,
      [Log InfoLevel ''Downloaded 0.00 MB'']) \<and>
   bytesRead exReader = 0 \<and>
   sum_list (counts [(''abcd'', 3, None), (''efgh'', 3, None)]) = 6 \<and>
   sint (bytesRead \<lparr>Reader = 6 :: nat, lastMessage = 0, bytesRead = 6\<rparr>) = 6"
  using progressReader_Read_spec
    [of exSys exRead exReader "[]" "[]" "[''abcd'', ''efgh'']"
       "[(''abcd'', 3, None), (''efgh'', 3, None)]"
       "\<lparr>Reader = 6, lastMessage = 0, bytesRead = 6\<rparr>"
       "[Log InfoLevel ''Downloaded 0.00 MB'']"]
    exReader_Reads
  by (simp add: counts_def exReader_def)

subsection \<open>The loop over the mounts\<close>




subsection \<open>The build without a daemon: when nothing is built\<close>

text \<open>
  C2, as the code has it: when the build mode is not \<^verbatim>\<open>"true"\<close>, or the image
  configuration is there already, or the build context is empty, \<^verbatim>\<open>dockerlessBuild\<close>
  returns no error, and all that happens is at most one line of the logger at debug
  level: no line in the first case, one in the other two. The builder is not run and
  nothing else is touched.
\<close>

theorem dockerlessBuild_noop:
  assumes "Getenv sys h ''DOCKERLESS'' \<noteq> ''true''
           \<or> Stat sys h DockerlessImageConfigOutput = None
           \<or> Getenv sys h ''DOCKERLESS_CONTEXT'' = []"
  shows "dockerlessBuild sys setupInfo dockerlessOptions debug h =
           (None,
            h @ (if Getenv sys h ''DOCKERLESS'' \<noteq> ''true'' then []
                 else if Stat sys h DockerlessImageConfigOutput = None then
                   [Log DebugLevel
                      ''Skip dockerless build, because container was built already'']
                 else [Log DebugLevel ''Build context is missing for dockerless build'']))"
  using assms by (auto simp add: dockerlessBuild_def Let_def)

theorem dockerlessBuild_noop_witness:
  "Getenv exSys [] ''DOCKERLESS'' \<noteq> ''true'' \<and>
   dockerlessBuild exSys exSetupInfo exDockerless False [] = (None, []) \<and>
   Getenv (exSys\<lparr>Getenv := \<lambda>h k. if k = ''DOCKERLESS'' then ''true'' else []\<rparr>) []
     ''DOCKERLESS_CONTEXT'' = [] \<and>
   dockerlessBuild (exSys\<lparr>Getenv := \<lambda>h k. if k = ''DOCKERLESS'' then ''true'' else []\<rparr>)
       exSetupInfo exDockerless False []
     = (None, [Log DebugLevel ''Build context is missing for dockerless build''])"
  using dockerlessBuild_noop [of exSys "[]" exSetupInfo exDockerless False]
    dockerlessBuild_noop
      [of "exSys\<lparr>Getenv := \<lambda>h k. if k = ''DOCKERLESS'' then ''true'' else []\<rparr>" "[]"
          exSetupInfo exDockerless False]
  by (simp add: exSys_def)

text \<open>
  The specification has it that nothing else happens. With the build mode set
  and the image configuration there, a debug line is handed to the logger.
\<close>

theorem dockerlessBuild_noop_counterexample:
  "Stat (exSys\<lparr>Getenv := \<lambda>h k. ''true'', Stat := \<lambda>h p. None\<rparr>) []
     DockerlessImageConfigOutput = None \<and>
   dockerlessBuild (exSys\<lparr>Getenv := \<lambda>h k. ''true'', Stat := \<lambda>h p. None\<rparr>)
       exSetupInfo exDockerless False []
     = (None, [Log DebugLevel ''Skip dockerless build, because container was built already'']) \<and>
   snd (dockerlessBuild (exSys\<lparr>Getenv := \<lambda>h k. ''true'', Stat := \<lambda>h p. None\<rparr>)
          exSetupInfo exDockerless False []) \<noteq> []"
  by (simp add: dockerlessBuild_def exSys_def)

subsection \<open>The steps of \<^verbatim>\<open>Run\<close>\<close>



subsection \<open>The clone\<close>

text \<open>
  C7: with pull-from-inside-container enabled, the clone is skipped when \<^verbatim>\<open>os.Stat\<close> of
  \<^verbatim>\<open>.git\<close> in the workspace folder succeeds and \<^verbatim>\<open>Recreate\<close> is false: the run goes on
  with the container setup after a debug line. In every other case the repository is
  cloned; an error of the clone is what the rest of \<^verbatim>\<open>Run\<close> returns, with nothing after
  the clone attempted, and without an error the run goes on with the container setup.
\<close>

theorem Run_clone_spec:
  assumes "StrBool sys (PullFromInsideContainer workspaceInfo) = Inr True"
    and "folder = ContainerWorkspaceFolder (SubstitutionContext setupInfo)"
  shows "(Stat sys h (PathJoin sys folder ''.git'') = None
            \<and> \<not> Recreate (CLIOptions workspaceInfo) \<longrightarrow>
            Run_clone sys cmd workspaceInfo setupInfo h
              = Run_setupContainer sys cmd workspaceInfo setupInfo
                  (h @ [Log DebugLevel
                          (''Workspace repository already checked out '' @ folder
                           @ '', skipping clone'')])) \<and>
         (\<not> (Stat sys h (PathJoin sys folder ''.git'') = None
              \<and> \<not> Recreate (CLIOptions workspaceInfo)) \<longrightarrow>
            (CloneRepositoryForWorkspace sys h folder = Some err \<longrightarrow>
               Run_clone sys cmd workspaceInfo setupInfo h = (Some err, h @ [EvClone folder])) \<and>
            (CloneRepositoryForWorkspace sys h folder = None \<longrightarrow>
               Run_clone sys cmd workspaceInfo setupInfo h
                 = Run_setupContainer sys cmd workspaceInfo setupInfo (h @ [EvClone folder])))"
  using assms by (auto simp add: Run_clone_def Let_def)

text \<open>
  The example: with \<^verbatim>\<open>.git\<close> in the workspace folder nothing is cloned and the run goes
  on to its end; without it the clone is tried, and its error ends the run.
\<close>

theorem Run_clone_spec_witness:
  "StrBool exSys (PullFromInsideContainer exWorkspaceInfo) = Inr True \<and>
   Stat (exSys\<lparr>Stat := \<lambda>h p. None\<rparr>) [] (PathJoin exSys ''/workspaces/project'' ''.git'') = None \<and>
   \<not> Recreate (CLIOptions exWorkspaceInfo) \<and>
   Run_clone (exSys\<lparr>Stat := \<lambda>h p. None\<rparr>) exCmd exWorkspaceInfo exSetupInfo []
     = (None,
        [Log DebugLevel
           ''Workspace repository already checked out /workspaces/project, skipping clone'',
         EvSetupContainer, EvSendResult ''{}'']) \<and>
   Stat (exSys\<lparr>CloneRepositoryForWorkspace := \<lambda>h f. Some exErr\<rparr>) []
     (PathJoin exSys ''/workspaces/project'' ''.git'') \<noteq> None \<and>
   CloneRepositoryForWorkspace (exSys\<lparr>CloneRepositoryForWorkspace := \<lambda>h f. Some exErr\<rparr>) []
     ''/workspaces/project'' = Some exErr \<and>
   Run_clone (exSys\<lparr>CloneRepositoryForWorkspace := \<lambda>h f. Some exErr\<rparr>) exCmd
       exWorkspaceInfo exSetupInfo []
     = (Some exErr, [EvClone ''/workspaces/project''])"
proof -
  let ?sysA = "exSys\<lparr>Stat := \<lambda>h p. None\<rparr>"
  let ?sysB = "exSys\<lparr>CloneRepositoryForWorkspace := \<lambda>h f. Some exErr\<rparr>"
  have folder: "''/workspaces/project'' = ContainerWorkspaceFolder (SubstitutionContext exSetupInfo)"
    by (simp add: exSetupInfo_def)
  have pull: "StrBool exSys (PullFromInsideContainer exWorkspaceInfo) = Inr True"
    by (simp add: exSys_def exWorkspaceInfo_def)
  have pullA: "StrBool ?sysA (PullFromInsideContainer exWorkspaceInfo) = Inr True"
    by (simp add: exSys_def exWorkspaceInfo_def)
  have pullB: "StrBool ?sysB (PullFromInsideContainer exWorkspaceInfo) = Inr True"
    by (simp add: exSys_def exWorkspaceInfo_def)
  have recreate: "\<not> Recreate (CLIOptions exWorkspaceInfo)"
    by (simp add: exWorkspaceInfo_def exOptions_def)
  have statA: "Stat ?sysA [] (PathJoin ?sysA ''/workspaces/project'' ''.git'') = None"
    by simp
  have statB: "Stat ?sysB [] (PathJoin ?sysB ''/workspaces/project'' ''.git'') \<noteq> None"
    by (simp add: exSys_def)
  have cloneB: "CloneRepositoryForWorkspace ?sysB [] ''/workspaces/project'' = Some exErr"
    by simp
  have joinA: "PathJoin ?sysA = PathJoin exSys" and joinB: "PathJoin ?sysB = PathJoin exSys"
    by simp_all
  have restA: "Run_setupContainer ?sysA exCmd exWorkspaceInfo exSetupInfo
      [Log DebugLevel
         (''Workspace repository already checked out '' @ ''/workspaces/project''
          @ '', skipping clone'')]
    = (None,
       [Log DebugLevel
          ''Workspace repository already checked out /workspaces/project, skipping clone'',
        EvSetupContainer, EvSendResult ''{}''])"
    by (simp add: exSys_def exWorkspaceInfo_def exOptions_def exSetupInfo_def
        Run_setupContainer_def Run_installIDE_def installIDE_def Run_daemon_def
        Run_sendResult_def)
  from Run_clone_spec [OF pullA folder, of "[]" exCmd exErr] statA recreate
  have "Run_clone ?sysA exCmd exWorkspaceInfo exSetupInfo []
    = Run_setupContainer ?sysA exCmd exWorkspaceInfo exSetupInfo
        [Log DebugLevel
           (''Workspace repository already checked out '' @ ''/workspaces/project''
            @ '', skipping clone'')]"
    by simp
  with restA have a: "Run_clone ?sysA exCmd exWorkspaceInfo exSetupInfo []
    = (None,
       [Log DebugLevel
          ''Workspace repository already checked out /workspaces/project, skipping clone'',
        EvSetupContainer, EvSendResult ''{}''])"
    by simp
  from Run_clone_spec [OF pullB folder, of "[]" exCmd exErr] statB cloneB
  have b: "Run_clone ?sysB exCmd exWorkspaceInfo exSetupInfo []
    = (Some exErr, [EvClone ''/workspaces/project''])"
    by simp
  from pull statA recreate a statB cloneB b joinA joinB show ?thesis
    by simp
qed

subsection \<open>The VSCode family\<close>

lemma singleCalls_append: "singleCalls (xs @ ys) = singleCalls xs @ singleCalls ys"
  by (induction xs) (simp_all split: event.splits)

lemma started_append: "started (xs @ ys) = started xs @ started ys"
  by (induction xs) (simp_all split: event.splits)

text \<open>
  C4, as the code has it. \<^verbatim>\<open>setupVSCode\<close> returns the error of marshalling the settings
  or of \<^verbatim>\<open>Install\<close> when one of them fails, and then the Single-Instance Guard is not
  called. When both succeed: with extensions, the guard is called exactly once, under
  the name of the flavor followed by \<^verbatim>\<open>-async.pid\<close> and with the command that installs
  the extensions of that flavor, which it starts if no live instance holds the lock and
  the path of the agent is found; without extensions (with or without settings) the
  guard is not called, nothing is started and no error is returned.
\<close>

theorem setupVSCode_spec:
  assumes "vsCodeConfiguration = GetVSCodeConfiguration sys (MergedConfig setupInfo)"
    and "h1 = h @ [Log DebugLevel (''Setup '' @ DisplayName sys flavor @ ''...'')]"
    and "srv = (\<lambda>settings. VSCodeServer (Extensions vsCodeConfiguration) settings
                             (GetRemoteUser sys setupInfo) ideOptions flavor)"
    and "name = FlavorString sys flavor @ ''-async.pid''"
    and "r = setupVSCode sys cmd setupInfo ideOptions flavor h"
  shows "(marshalSettings sys vsCodeConfiguration = Inl err \<longrightarrow>
            r = (Some err, h1)) \<and>
         (marshalSettings sys vsCodeConfiguration = Inr settings
            \<and> Install sys h1 (srv settings) = Some err \<longrightarrow>
            r = (Some err, h1 @ [EvInstall (srv settings)])) \<and>
         (marshalSettings sys vsCodeConfiguration = Inr settings
            \<and> Install sys h1 (srv settings) = None
            \<and> Extensions vsCodeConfiguration = [] \<longrightarrow>
            r = (None, h1 @ [EvInstall (srv settings)])) \<and>
         (marshalSettings sys vsCodeConfiguration = Inr settings
            \<and> Install sys h1 (srv settings) = None
            \<and> Extensions vsCodeConfiguration \<noteq> [] \<longrightarrow>
            r = Single sys name
                  (setupVSCode_createCommand sys cmd (Extensions vsCodeConfiguration) flavor)
                  (h1 @ [EvInstall (srv settings)])
            \<and> singleCalls (snd r) = singleCalls h @ [name]
            \<and> (started (snd r) = started h
                 \<or> (\<exists>binaryPath.
                       started (snd r)
                         = started h
                           @ [(name,
                               Command binaryPath
                                 [''agent'', ''container'', ''vscode-async'',
                                  ''--setup-info'', SetupInfo cmd,
                                  ''--release-channel'', FlavorString sys flavor])]))) \<and>
         (Extensions vsCodeConfiguration = [] \<or> marshalSettings sys vsCodeConfiguration = Inl err
            \<or> (marshalSettings sys vsCodeConfiguration = Inr settings
                 \<and> Install sys h1 (srv settings) = Some err) \<longrightarrow>
            singleCalls (snd r) = singleCalls h \<and> started (snd r) = started h)"
  using assms
  by (auto simp add: setupVSCode_def Single_def setupVSCode_createCommand_def Let_def
      singleCalls_append started_append split: sum.splits option.splits)

text \<open>
  The example: with one extension the guard is called once and starts the agent; with
  settings only it is not called.
\<close>

theorem setupVSCode_spec_witness:
  "marshalSettings exSysExtensions
     (GetVSCodeConfiguration exSysExtensions (MergedConfig exSetupInfo)) = Inr [] \<and>
   Install exSysExtensions [Log DebugLevel ''Setup VSCode...'']
     (VSCodeServer [''golang.go''] [] ''root'' [] FlavorStable) = None \<and>
   Extensions (GetVSCodeConfiguration exSysExtensions (MergedConfig exSetupInfo)) \<noteq> [] \<and>
   setupVSCode exSysExtensions exCmd exSetupInfo [] FlavorStable []
     = (None,
        [Log DebugLevel ''Setup VSCode...'',
         EvInstall (VSCodeServer [''golang.go''] [] ''root'' [] FlavorStable),
         EvSingle ''stable-async.pid'',
         Log InfoLevel (''Install extensions '' @ [CHR 0x27] @ ''golang.go'' @ [CHR 0x27]
                        @ '' in the background''),
         EvStartDetached ''stable-async.pid''
           (Command ''/usr/local/bin/devpod''
              [''agent'', ''container'', ''vscode-async'', ''--setup-info'', ''setup'',
               ''--release-channel'', ''stable''])]) \<and>
   singleCalls (snd (setupVSCode exSysExtensions exCmd exSetupInfo [] FlavorStable []))
     = [''stable-async.pid''] \<and>
   marshalSettings exSysSettings
     (GetVSCodeConfiguration exSysSettings (MergedConfig exSetupInfo)) = Inr ''{}'' \<and>
   Extensions (GetVSCodeConfiguration exSysSettings (MergedConfig exSetupInfo)) = [] \<and>
   setupVSCode exSysSettings exCmd exSetupInfo [] FlavorStable []
     = (None,
        [Log DebugLevel ''Setup VSCode...'',
         EvInstall (VSCodeServer [] ''{}'' ''root'' [] FlavorStable)]) \<and>
   singleCalls (snd (setupVSCode exSysSettings exCmd exSetupInfo [] FlavorStable [])) = [] \<and>
   started (snd (setupVSCode exSysSettings exCmd exSetupInfo [] FlavorStable [])) = []"
  using setupVSCode_spec
      [OF refl refl refl refl refl,
       where sys = exSysExtensions and setupInfo = exSetupInfo and h = "[]"
         and flavor = FlavorStable and ideOptions = "[]" and cmd = exCmd
         and settings = "[]" and err = exErr]
    setupVSCode_spec
      [OF refl refl refl refl refl,
       where sys = exSysSettings and setupInfo = exSetupInfo and h = "[]"
         and flavor = FlavorStable and ideOptions = "[]" and cmd = exCmd
         and settings = "''{}''" and err = exErr]
  by (simp add: exSysExtensions_def exSysSettings_def exSys_def exSetupInfo_def exCmd_def
      marshalSettings_def Single_def setupVSCode_createCommand_def Command_def)

text \<open>
  The specification states it without a condition on \<^verbatim>\<open>Install\<close>. With one extension and
  an \<^verbatim>\<open>Install\<close> that fails, \<^verbatim>\<open>setupVSCode\<close> returns the error, and the guard is not
  called and nothing is started.
\<close>

theorem setupVSCode_spec_counterexample:
  "Extensions (GetVSCodeConfiguration (exSysExtensions\<lparr>Install := \<lambda>h s. Some exErr\<rparr>)
                 (MergedConfig exSetupInfo)) = [''golang.go''] \<and>
   setupVSCode (exSysExtensions\<lparr>Install := \<lambda>h s. Some exErr\<rparr>) exCmd exSetupInfo []
       FlavorStable []
     = (Some exErr,
        [Log DebugLevel ''Setup VSCode...'',
         EvInstall (VSCodeServer [''golang.go''] [] ''root'' [] FlavorStable)]) \<and>
   singleCalls (snd (setupVSCode (exSysExtensions\<lparr>Install := \<lambda>h s. Some exErr\<rparr>) exCmd
                       exSetupInfo [] FlavorStable [])) = [] \<and>
   started (snd (setupVSCode (exSysExtensions\<lparr>Install := \<lambda>h s. Some exErr\<rparr>) exCmd
                   exSetupInfo [] FlavorStable [])) = []"
  by (simp add: setupVSCode_def marshalSettings_def exSysExtensions_def exSys_def
      exSetupInfo_def)

subsection \<open>The dispatch on the IDE\<close>

text \<open>
  C5: an \<^verbatim>\<open>Install\<close> of RStudio that fails is logged and \<^verbatim>\<open>installIDE\<close> returns no
  error. An \<^verbatim>\<open>Install\<close> that fails for a kind of the JetBrains family, for Fleet, for
  Jupyter, for a kind of the VSCode family or for OpenVSCode is what \<^verbatim>\<open>installIDE\<close>
  returns (for the last two, \<^verbatim>\<open>Install\<close> is called once the settings are marshalled).
  For the kind \<^verbatim>\<open>none\<close> no error is returned and nothing happens.
\<close>

theorem installIDE_spec:
  assumes "user = GetRemoteUser sys setupInfo"
    and "folder = ContainerWorkspaceFolder (SubstitutionContext setupInfo)"
    and "vsCodeConfiguration = GetVSCodeConfiguration sys (MergedConfig setupInfo)"
    and "r = installIDE sys cmd setupInfo ide h"
  shows "(Name ide = IDENone \<longrightarrow> r = (None, h)) \<and>
         (Name ide = IDERStudio
            \<and> Install sys h (RStudioServer folder user (Options ide)) = Some err \<longrightarrow>
            r = (None,
                 h @ [EvInstall (RStudioServer folder user (Options ide)),
                      Log ErrorLevel
                        (''could not install rstudio with error: '' @ FormatErrorW sys err)])) \<and>
         (Name ide \<in> jetBrainsFamily
            \<and> Install sys h (JetBrainsServer (Name ide) user (Options ide)) = Some err \<longrightarrow>
            r = (Some err, h @ [EvInstall (JetBrainsServer (Name ide) user (Options ide))])) \<and>
         (Name ide = IDEFleet
            \<and> Install sys h (FleetServer user (Options ide) folder) = Some err \<longrightarrow>
            r = (Some err, h @ [EvInstall (FleetServer user (Options ide) folder)])) \<and>
         (Name ide = IDEJupyterNotebook
            \<and> Install sys h (JupyterNotebookServer folder user (Options ide)) = Some err \<longrightarrow>
            r = (Some err, h @ [EvInstall (JupyterNotebookServer folder user (Options ide))])) \<and>
         (vscodeFlavor (Name ide) = Some flavor
            \<and> marshalSettings sys vsCodeConfiguration = Inr settings
            \<and> Install sys (h @ [Log DebugLevel (''Setup '' @ DisplayName sys flavor @ ''...'')])
                 (VSCodeServer (Extensions vsCodeConfiguration) settings user (Options ide)
                    flavor) = Some err \<longrightarrow>
            r = (Some err,
                 h @ [Log DebugLevel (''Setup '' @ DisplayName sys flavor @ ''...''),
                      EvInstall (VSCodeServer (Extensions vsCodeConfiguration) settings user
                                   (Options ide) flavor)])) \<and>
         (Name ide = IDEOpenVSCode
            \<and> marshalSettings sys vsCodeConfiguration = Inr settings
            \<and> Install sys (h @ [Log DebugLevel ''Setup openvscode...''])
                 (OpenVSCodeServer (Extensions vsCodeConfiguration) settings user ''0.0.0.0''
                    (Itoa (DefaultVSCodePort sys)) (Options ide)) = Some err \<longrightarrow>
            r = (Some err,
                 h @ [Log DebugLevel ''Setup openvscode...'',
                      EvInstall (OpenVSCodeServer (Extensions vsCodeConfiguration) settings user
                                   ''0.0.0.0'' (Itoa (DefaultVSCodePort sys)) (Options ide))]))"
proof -
  have vs: "vscodeFlavor (Name ide) = Some flavor \<Longrightarrow>
      installIDE sys cmd setupInfo ide h = setupVSCode sys cmd setupInfo (Options ide) flavor h"
    by (cases "Name ide") (auto simp add: vscodeFlavor_def installIDE_def)
  have jb: "Name ide \<in> jetBrainsFamily \<Longrightarrow>
      installIDE sys cmd setupInfo ide h
        = install sys (JetBrainsServer (Name ide) user (Options ide)) h"
    using assms(1) by (auto simp add: jetBrainsFamily_def installIDE_def)
  show ?thesis
  proof (intro conjI impI)
    assume "vscodeFlavor (Name ide) = Some flavor
            \<and> marshalSettings sys vsCodeConfiguration = Inr settings
            \<and> Install sys (h @ [Log DebugLevel (''Setup '' @ DisplayName sys flavor @ ''...'')])
                 (VSCodeServer (Extensions vsCodeConfiguration) settings user (Options ide)
                    flavor) = Some err"
    with assms vs
    show "r = (Some err,
                 h @ [Log DebugLevel (''Setup '' @ DisplayName sys flavor @ ''...''),
                      EvInstall (VSCodeServer (Extensions vsCodeConfiguration) settings user
                                   (Options ide) flavor)])"
      by (simp add: setupVSCode_def)
  next
    assume "Name ide \<in> jetBrainsFamily
            \<and> Install sys h (JetBrainsServer (Name ide) user (Options ide)) = Some err"
    with assms jb
    show "r = (Some err, h @ [EvInstall (JetBrainsServer (Name ide) user (Options ide))])"
      by (simp add: install_def)
  qed (use assms in \<open>simp_all add: installIDE_def install_def setupOpenVSCode_def\<close>)
qed

text \<open>
  The example: every \<^verbatim>\<open>Install\<close> fails. For RStudio the error is logged; for GoLand,
  Fleet, Jupyter, Cursor and OpenVSCode it is returned; for \<^verbatim>\<open>none\<close> nothing happens.
\<close>

theorem installIDE_spec_witness:
  "installIDE exSysFail exCmd exSetupInfo \<lparr>Name = IDENone, Options = []\<rparr> [] = (None, []) \<and>
   Install exSysFail [] (RStudioServer ''/workspaces/project'' ''root'' []) = Some exErr \<and>
   installIDE exSysFail exCmd exSetupInfo \<lparr>Name = IDERStudio, Options = []\<rparr> []
     = (None,
        [EvInstall (RStudioServer ''/workspaces/project'' ''root'' []),
         Log ErrorLevel ''could not install rstudio with error: connection refused'']) \<and>
   IDEGoland \<in> jetBrainsFamily \<and>
   Install exSysFail [] (JetBrainsServer IDEGoland ''root'' []) = Some exErr \<and>
   installIDE exSysFail exCmd exSetupInfo \<lparr>Name = IDEGoland, Options = []\<rparr> []
     = (Some exErr, [EvInstall (JetBrainsServer IDEGoland ''root'' [])]) \<and>
   installIDE exSysFail exCmd exSetupInfo \<lparr>Name = IDEFleet, Options = []\<rparr> []
     = (Some exErr, [EvInstall (FleetServer ''root'' [] ''/workspaces/project'')]) \<and>
   installIDE exSysFail exCmd exSetupInfo \<lparr>Name = IDEJupyterNotebook, Options = []\<rparr> []
     = (Some exErr, [EvInstall (JupyterNotebookServer ''/workspaces/project'' ''root'' [])]) \<and>
   vscodeFlavor IDECursor = Some FlavorCursor \<and>
   marshalSettings exSysFail (GetVSCodeConfiguration exSysFail (MergedConfig exSetupInfo))
     = Inr [] \<and>
   installIDE exSysFail exCmd exSetupInfo \<lparr>Name = IDECursor, Options = []\<rparr> []
     = (Some exErr,
        [Log DebugLevel ''Setup VSCode...'',
         EvInstall (VSCodeServer [] [] ''root'' [] FlavorCursor)]) \<and>
   installIDE exSysFail exCmd exSetupInfo \<lparr>Name = IDEOpenVSCode, Options = []\<rparr> []
     = (Some exErr,
        [Log DebugLevel ''Setup openvscode...'',
         EvInstall (OpenVSCodeServer [] [] ''root'' ''0.0.0.0'' (Itoa 10800) [])])"
proof -
  note ex = exSysFail_def exSys_def exSetupInfo_def exErr_def marshalSettings_def
    jetBrainsFamily_def vscodeFlavor_def
  note spec = installIDE_spec
    [OF refl refl refl refl, where sys = exSysFail and cmd = exCmd
       and setupInfo = exSetupInfo and h = "[]" and err = exErr and settings = "[]"]
  from spec [where ide = "\<lparr>Name = IDENone, Options = []\<rparr>"]
  have a: "installIDE exSysFail exCmd exSetupInfo \<lparr>Name = IDENone, Options = []\<rparr> []
             = (None, [])"
    by simp
  from spec [where ide = "\<lparr>Name = IDERStudio, Options = []\<rparr>"]
  have b: "installIDE exSysFail exCmd exSetupInfo \<lparr>Name = IDERStudio, Options = []\<rparr> []
     = (None,
        [EvInstall (RStudioServer ''/workspaces/project'' ''root'' []),
         Log ErrorLevel ''could not install rstudio with error: connection refused''])"
    by (simp add: ex)
  from spec [where ide = "\<lparr>Name = IDEGoland, Options = []\<rparr>"]
  have c: "installIDE exSysFail exCmd exSetupInfo \<lparr>Name = IDEGoland, Options = []\<rparr> []
     = (Some exErr, [EvInstall (JetBrainsServer IDEGoland ''root'' [])])"
    by (simp add: ex)
  from spec [where ide = "\<lparr>Name = IDEFleet, Options = []\<rparr>"]
  have d: "installIDE exSysFail exCmd exSetupInfo \<lparr>Name = IDEFleet, Options = []\<rparr> []
     = (Some exErr, [EvInstall (FleetServer ''root'' [] ''/workspaces/project'')])"
    by (simp add: ex)
  from spec [where ide = "\<lparr>Name = IDEJupyterNotebook, Options = []\<rparr>"]
  have e: "installIDE exSysFail exCmd exSetupInfo \<lparr>Name = IDEJupyterNotebook, Options = []\<rparr> []
     = (Some exErr, [EvInstall (JupyterNotebookServer ''/workspaces/project'' ''root'' [])])"
    by (simp add: ex)
  from spec [where ide = "\<lparr>Name = IDECursor, Options = []\<rparr>" and flavor = FlavorCursor]
  have f: "installIDE exSysFail exCmd exSetupInfo \<lparr>Name = IDECursor, Options = []\<rparr> []
     = (Some exErr,
        [Log DebugLevel ''Setup VSCode...'',
         EvInstall (VSCodeServer [] [] ''root'' [] FlavorCursor)])"
    by (simp add: ex)
  from spec [where ide = "\<lparr>Name = IDEOpenVSCode, Options = []\<rparr>"]
  have g: "installIDE exSysFail exCmd exSetupInfo \<lparr>Name = IDEOpenVSCode, Options = []\<rparr> []
     = (Some exErr,
        [Log DebugLevel ''Setup openvscode...'',
         EvInstall (OpenVSCodeServer [] [] ''root'' ''0.0.0.0'' (Itoa 10800) [])])"
    by (simp add: ex)
  from a b c d e f g show ?thesis
    by (simp add: ex)
qed

subsection \<open>The streams of the builder\<close>

lemma runs_append: "runs (xs @ ys) = runs xs @ runs ys"
  by (induction xs) (simp_all split: event.splits)

lemma runs_dockerlessBuild_buildInfo:
  "runs (snd (dockerlessBuild_buildInfo sys fallbackDir buildInfoDir h)) = runs h"
  by (simp add: dockerlessBuild_buildInfo_def runs_append Let_def split: option.splits)

lemma runs_configureDockerCredentials:
  "runs (snd (configureDockerCredentials sys h)) = runs h"
  by (simp add: configureDockerCredentials_def runs_append Let_def split: sum.splits)

lemma runs_dockerlessBuild_args:
  "runs (snd (dockerlessBuild_args sys setupInfo dockerlessOptions binaryPath h)) = runs h"
  by (simp add: dockerlessBuild_args_def runs_append Let_def)

lemma runs_dockerlessBuild_run:
  "\<exists>c. runs (snd (dockerlessBuild_run sys debug fallbackDir buildInfoDir args h)) = runs h @ [c]
        \<and> Path c = ''/.dockerless/dockerless'' \<and> Args c = args
        \<and> Stderr c = Some (LogWriter InfoLevel)
        \<and> Stdout c = (if debug then Some (LogWriter DebugLevel) else None)"
  by (simp add: dockerlessBuild_run_def runs_append Let_def split: option.splits sum.splits)

lemma runs_dockerlessBuild_build:
  "runs (snd (dockerlessBuild_build sys setupInfo dockerlessOptions debug fallbackDir
                buildInfoDir h)) = runs h
   \<or> (\<exists>c. runs (snd (dockerlessBuild_build sys setupInfo dockerlessOptions debug fallbackDir
                        buildInfoDir h)) = runs h @ [c]
          \<and> Path c = ''/.dockerless/dockerless''
          \<and> Stderr c = Some (LogWriter InfoLevel)
          \<and> Stdout c = (if debug then Some (LogWriter DebugLevel) else None))"
proof (cases "Executable sys h")
  case (Inl err)
  then show ?thesis by (simp add: dockerlessBuild_build_def)
next
  case (Inr binaryPath)
  define build where "build = (\<lambda>h. case dockerlessBuild_args sys setupInfo dockerlessOptions
                                   binaryPath h of
                             (args, h') \<Rightarrow>
                               dockerlessBuild_run sys debug fallbackDir buildInfoDir args h')"
  have build: "\<exists>c. runs (snd (build h0)) = runs h0 @ [c]
        \<and> Path c = ''/.dockerless/dockerless''
        \<and> Stderr c = Some (LogWriter InfoLevel)
        \<and> Stdout c = (if debug then Some (LogWriter DebugLevel) else None)" for h0
  proof -
    obtain args h' where a: "dockerlessBuild_args sys setupInfo dockerlessOptions binaryPath h0
        = (args, h')"
      by (cases "dockerlessBuild_args sys setupInfo dockerlessOptions binaryPath h0") auto
    with runs_dockerlessBuild_args [of sys setupInfo dockerlessOptions binaryPath h0]
    have "runs h' = runs h0" by simp
    with runs_dockerlessBuild_run [of sys debug fallbackDir buildInfoDir args h'] a
    show ?thesis by (auto simp add: build_def)
  qed
  show ?thesis
  proof (cases "DisableDockerCredentials dockerlessOptions \<noteq> ''true''")
    case False
    with Inr build [of h] show ?thesis
      by (simp add: dockerlessBuild_build_def build_def)
  next
    case True
    obtain res h1 where c: "configureDockerCredentials sys h = (res, h1)"
      by (cases "configureDockerCredentials sys h") auto
    with runs_configureDockerCredentials [of sys h] have h1: "runs h1 = runs h" by simp
    show ?thesis
    proof (cases res)
      case (Inl err)
      let ?h2 = "h1 @ [Log ErrorLevel
                         (''Error configuring docker credentials: '' @ errorString err)]"
      from build [of ?h2] h1 obtain c' where
        "runs (snd (build ?h2)) = runs h @ [c']" "Path c' = ''/.dockerless/dockerless''"
        "Stderr c' = Some (LogWriter InfoLevel)"
        "Stdout c' = (if debug then Some (LogWriter DebugLevel) else None)"
        by (auto simp add: runs_append)
      with Inr True c Inl show ?thesis
        by (auto simp add: dockerlessBuild_build_def build_def [symmetric] runs_append
            split: prod.splits)
    next
      case (Inr dockerCredentialsDir)
      from build [of h1] h1 obtain c' where
        "runs (snd (build h1)) = runs h @ [c']" "Path c' = ''/.dockerless/dockerless''"
        "Stderr c' = Some (LogWriter InfoLevel)"
        "Stdout c' = (if debug then Some (LogWriter DebugLevel) else None)"
        by (auto simp add: runs_append)
      with \<open>Executable sys h = Inr binaryPath\<close> True c Inr show ?thesis
        by (auto simp add: dockerlessBuild_build_def build_def [symmetric] runs_append
            split: prod.splits)
    qed
  qed
qed

text \<open>
  C8, as the code has it: \<^verbatim>\<open>dockerlessBuild\<close> runs at most one command, the builder.
  The standard error of the builder goes to the logger at info level, always; its
  standard output goes to the logger at debug level when \<^verbatim>\<open>debug\<close> is set and is
  discarded otherwise.
\<close>

theorem dockerlessBuild_streams:
  "\<exists>cs. runs (snd (dockerlessBuild sys setupInfo dockerlessOptions debug h)) = runs h @ cs
         \<and> length cs \<le> 1
         \<and> (\<forall>c \<in> set cs.
               Path c = ''/.dockerless/dockerless''
               \<and> Stderr c = Some (LogWriter InfoLevel)
               \<and> Stdout c = (if debug then Some (LogWriter DebugLevel) else None))"
proof -
  let ?fallbackDir = "PathJoin sys (DevPodDockerlessBuildInfoFolder sys)
                        (DevPodContextFeatureFolder sys)"
  let ?buildInfoDir = "PathJoin sys (Getenv sys h ''DOCKERLESS_CONTEXT'')
                         (DevPodContextFeatureFolder sys)"
  let ?r = "dockerlessBuild sys setupInfo dockerlessOptions debug h"
  obtain e h1 where b: "dockerlessBuild_buildInfo sys ?fallbackDir ?buildInfoDir h = (e, h1)"
    by (cases "dockerlessBuild_buildInfo sys ?fallbackDir ?buildInfoDir h") auto
  with runs_dockerlessBuild_buildInfo [of sys ?fallbackDir ?buildInfoDir h]
  have h1: "runs h1 = runs h" by simp
  from runs_dockerlessBuild_build
    [of sys setupInfo dockerlessOptions debug ?fallbackDir ?buildInfoDir h1] h1 b
  have "runs (snd ?r) = runs h
        \<or> (\<exists>c. runs (snd ?r) = runs h @ [c]
               \<and> Path c = ''/.dockerless/dockerless''
               \<and> Stderr c = Some (LogWriter InfoLevel)
               \<and> Stdout c = (if debug then Some (LogWriter DebugLevel) else None))"
    by (auto simp add: dockerlessBuild_def Let_def runs_append split: option.splits)
  then show ?thesis
  proof
    assume "runs (snd ?r) = runs h"
    then show ?thesis by (intro exI [of _ "[]"]) simp
  next
    assume "\<exists>c. runs (snd ?r) = runs h @ [c]
               \<and> Path c = ''/.dockerless/dockerless''
               \<and> Stderr c = Some (LogWriter InfoLevel)
               \<and> Stdout c = (if debug then Some (LogWriter DebugLevel) else None)"
    then obtain c where "runs (snd ?r) = runs h @ [c]"
      "Path c = ''/.dockerless/dockerless''" "Stderr c = Some (LogWriter InfoLevel)"
      "Stdout c = (if debug then Some (LogWriter DebugLevel) else None)"
      by blast
    then show ?thesis by (intro exI [of _ "[c]"]) simp
  qed
qed

lemma parseIgnorePaths_Nil: "parseIgnorePaths [] = []"
  by (simp add: parseIgnorePaths_def TrimSpace_def trimLeftRunes_Nil)

lemma exSysBuild_runs:
  "runs (snd (dockerlessBuild exSysBuild exSetupInfo exDockerless debug []))
     = [\<lparr>Path = ''/.dockerless/dockerless'',
         Args = [''build'', ''--ignore-path'', ''/usr/local/bin/devpod'',
                 ''--build-arg'', ''TARGETOS=linux'', ''--build-arg'', ''TARGETARCH=amd64'',
                 ''--ignore-path'', ''/workspaces/project''],
         Stdout = (if debug then Some (LogWriter DebugLevel) else None),
         Stderr = Some (LogWriter InfoLevel),
         Env = Some []\<rparr>]"
  by (simp add: dockerlessBuild_def dockerlessBuild_buildInfo_def dockerlessBuild_build_def
      dockerlessBuild_args_def dockerlessBuild_run_def DockerlessImageConfigOutput_def
      parseIgnorePaths_Nil exSysBuild_def exSys_def exSetupInfo_def exDockerless_def
      exMount_def runs_append Let_def)

text \<open>The example: the builder runs, once with \<^verbatim>\<open>debug\<close> and once without.\<close>

theorem dockerlessBuild_streams_witness:
  "map Stderr (runs (snd (dockerlessBuild exSysBuild exSetupInfo exDockerless True [])))
     = [Some (LogWriter InfoLevel)] \<and>
   map Stdout (runs (snd (dockerlessBuild exSysBuild exSetupInfo exDockerless True [])))
     = [Some (LogWriter DebugLevel)] \<and>
   map Stderr (runs (snd (dockerlessBuild exSysBuild exSetupInfo exDockerless False [])))
     = [Some (LogWriter InfoLevel)] \<and>
   map Stdout (runs (snd (dockerlessBuild exSysBuild exSetupInfo exDockerless False [])))
     = [None]"
  using dockerlessBuild_streams [of exSysBuild exSetupInfo exDockerless True "[]"]
    dockerlessBuild_streams [of exSysBuild exSetupInfo exDockerless False "[]"]
  by (simp add: exSysBuild_runs)

text \<open>
  The specification has the standard error at error level. In the example
  the writer on the standard error of the builder is the one at info level.
\<close>

theorem dockerlessBuild_streams_counterexample:
  "map Stderr (runs (snd (dockerlessBuild exSysBuild exSetupInfo exDockerless False [])))
     = [Some (LogWriter InfoLevel)] \<and>
   Some (LogWriter InfoLevel) \<noteq> Some (LogWriter ErrorLevel)"
  by (simp add: exSysBuild_runs)

subsection \<open>The remote environment\<close>



end
